theory Spec2Isabelle
  imports Main "HOL-Library.AList"
begin

section \<open>Values exchanged with the service\<close>

text \<open>
  Decoded JSON, as Python's \<open>json\<close> module and \<open>httpx\<close> hand it to the client: a dict
  is an association list in insertion order with one entry per key, a string is the
  sequence of its characters.  Floats carry no behaviour in \<open>feedback.py\<close> (they are
  only passed through), so a float is kept as its literal text.
\<close>

datatype json =
    JNull
  | JBool bool
  | JInt int
  | JFloat string
  | JStr string
  | JArr "json list"
  | JObj "(string \<times> json) list"

text \<open>Python's \<open>str(n)\<close> for an integer, used by the f-strings of the source.\<close>

definition digit_char :: "nat \<Rightarrow> char" where
  "digit_char d = char_of (48 + d)"

function str_nat :: "nat \<Rightarrow> string" where
  "str_nat n = (if n < 10 then [digit_char n] else str_nat (n div 10) @ [digit_char (n mod 10)])"
  by pat_completeness auto
termination
  by (relation "measure id") auto

declare str_nat.simps [simp del]

definition str_int :: "int \<Rightarrow> string" where
  "str_int i = (if i < 0 then CHR ''-'' # str_nat (nat (- i)) else str_nat (nat i))"

text \<open>\<open>Log10Config\<close> (imported from \<open>log10.llm\<close>): the three fields the client reads.\<close>

record Log10Config =
  url :: string
  token :: string
  org_id :: string

datatype http_method = GET | POST

record request =
  verb :: http_method
  target :: string
  req_headers :: "(string \<times> string) list"
  json_body :: "json option"

text \<open>
  A response body either decodes as JSON or does not; \<open>res.json()\<close> raises
  \<open>JSONDecodeError\<close> on the latter.
\<close>

datatype body = Not_json string | Json json

record response =
  status_code :: nat
  content :: body

datatype exn =
    TransportError string
  | HTTPStatusError response
  | JSONDecodeError
  | TypeError
  | KeyError string
  | NotRenderableError
  | MarkupError

text \<open>What the network does with one request: no response at all, or a response.\<close>

datatype outcome = Transport_fails string | Responds response

text \<open>
  The collaborators outside \<open>feedback.py\<close>: the remote service behind the HTTP
  transport; the configuration \<open>Log10Config()\<close> loads from the environment; the standard
  library's \<open>json.loads\<close> and \<open>json.dumps\<close>; of httpx, the headers a new \<open>Client\<close> starts
  with and the headers it computes for a request by itself (\<open>Host\<close>, and the length and
  type of a body); of rich, the text the console shows for a string, where \<open>None\<close> stands
  for the \<open>MarkupError\<close> it raises on malformed console markup.
\<close>

record env =
  server :: "request \<Rightarrow> outcome"
  default_config :: Log10Config
  json_loads :: "string \<Rightarrow> json option"
  json_dumps :: "json \<Rightarrow> string"
  client_default_headers :: "(string \<times> string) list"
  auto_headers :: "http_method \<Rightarrow> string \<Rightarrow> json option \<Rightarrow> (string \<times> string) list"
  render_str :: "string \<Rightarrow> string option"

section \<open>Observable effects\<close>

datatype log_item = Log_exn exn | Log_value json

record table =
  title :: string
  columns :: "string list"
  rows :: "string list list"

text \<open>
  Standard output: \<open>click.echo\<close> of a string, of the f-string
  \<open>"Error fetching feedback {e}"\<close>, of a JSON value, and what \<open>console.print\<close> shows
  for the table and for a string.
\<close>

datatype out_item =
    Echo string
  | Echo_error_fetching exn
  | Echo_value json
  | Console_table table
  | Console_text string

text \<open>
  The world outside the client object: the requests handed to the transport, what
  \<open>logger.error\<close> wrote (the logging module's error channel), and standard output.
\<close>

record world =
  sent :: "request list"
  logged :: "log_item list"
  stdout :: "out_item list"

definition logger_error :: "log_item \<Rightarrow> world \<Rightarrow> world" where
  "logger_error x w = w\<lparr>logged := logged w @ [x]\<rparr>"

definition echo :: "out_item \<Rightarrow> world \<Rightarrow> world" where
  "echo x w = w\<lparr>stdout := stdout w @ [x]\<rparr>"

section \<open>The HTTP client library\<close>

text \<open>
  Headers in httpx: a name matches whatever its case, so the model keeps names in lower
  case; the order of the headers of a request is not modelled.
\<close>

definition lower_char :: "char \<Rightarrow> char" where
  "lower_char c =
     (let n = (of_char c :: nat) in if 65 \<le> n \<and> n \<le> 90 then char_of (n + 32) else c)"

definition lower :: "string \<Rightarrow> string" where
  "lower s = map lower_char s"

text \<open>
  Assigning a dict to \<open>client.headers\<close> goes through the setter of httpx: the client's
  default headers, updated with the entries of the dict (an entry replaces the header
  of its name, or is added).
\<close>

definition headers_update ::
  "(string \<times> string) list \<Rightarrow> (string \<times> string) list \<Rightarrow> (string \<times> string) list" where
  "headers_update hs new = foldl (\<lambda>h kv. AList.update (lower (fst kv)) (snd kv) h) hs new"

text \<open>
  Building a request: neither \<open>_post_request\<close> nor \<open>list\<close> passes headers, so a request
  has the client's headers, and each header httpx computes for the request itself
  where the client has none of that name.
\<close>

definition headers_setdefault ::
  "(string \<times> string) list \<Rightarrow> (string \<times> string) list \<Rightarrow> (string \<times> string) list" where
  "headers_setdefault hs extra =
     foldl (\<lambda>h kv. if List.member (map fst h) (lower (fst kv)) then h
                    else h @ [(lower (fst kv), snd kv)]) hs extra"

definition request_headers ::
  "env \<Rightarrow> (string \<times> string) list \<Rightarrow> http_method \<Rightarrow> string \<Rightarrow> json option
     \<Rightarrow> (string \<times> string) list" where
  "request_headers E client_headers m u b =
     headers_setdefault client_headers (auto_headers E m u b)"

text \<open>
  \<open>httpx.Client.get\<close> and \<open>.post\<close>: the request goes out once; a transport failure is
  raised as an exception that has no \<open>response\<close> attribute.
\<close>

definition http_send :: "env \<Rightarrow> request \<Rightarrow> world \<Rightarrow> (exn + response) \<times> world" where
  "http_send E rq w =
     ((case server E rq of
         Transport_fails m \<Rightarrow> Inl (TransportError m)
       | Responds r \<Rightarrow> Inr r),
      w\<lparr>sent := sent w @ [rq]\<rparr>)"

definition is_success :: "response \<Rightarrow> bool" where
  "is_success r = (200 \<le> status_code r \<and> status_code r < 300)"

definition raise_for_status :: "response \<Rightarrow> exn + response" where
  "raise_for_status r = (if is_success r then Inr r else Inl (HTTPStatusError r))"

definition response_json :: "response \<Rightarrow> exn + json" where
  "response_json r = (case content r of Not_json _ \<Rightarrow> Inl JSONDecodeError | Json j \<Rightarrow> Inr j)"

section \<open>Python operators on decoded JSON\<close>

fun is_prefix :: "string \<Rightarrow> string \<Rightarrow> bool" where
  "is_prefix [] ys = True"
| "is_prefix (x # xs) [] = False"
| "is_prefix (x # xs) (y # ys) = (x = y \<and> is_prefix xs ys)"

fun is_substring :: "string \<Rightarrow> string \<Rightarrow> bool" where
  "is_substring xs [] = (xs = [])"
| "is_substring xs (y # ys) = (is_prefix xs (y # ys) \<or> is_substring xs ys)"

text \<open>
  \<open>k in v\<close> for a string \<open>k\<close>: key membership on a dict, element membership on a list,
  substring on a string, \<open>TypeError\<close> on everything else.
\<close>

fun py_contains :: "string \<Rightarrow> json \<Rightarrow> exn + bool" where
  "py_contains k (JObj kvs) = Inr (List.member (map fst kvs) k)"
| "py_contains k (JArr xs) = Inr (List.member xs (JStr k))"
| "py_contains k (JStr s) = Inr (is_substring k s)"
| "py_contains k JNull = Inl TypeError"
| "py_contains k (JBool b) = Inl TypeError"
| "py_contains k (JInt i) = Inl TypeError"
| "py_contains k (JFloat f) = Inl TypeError"

text \<open>
  \<open>v[k]\<close> for a string \<open>k\<close>: the value on a dict (\<open>KeyError\<close> when absent), \<open>TypeError\<close>
  on everything else.
\<close>

fun py_getitem :: "json \<Rightarrow> string \<Rightarrow> exn + json" where
  "py_getitem (JObj kvs) k = (case map_of kvs k of None \<Rightarrow> Inl (KeyError k) | Some v \<Rightarrow> Inr v)"
| "py_getitem (JArr xs) k = Inl TypeError"
| "py_getitem (JStr s) k = Inl TypeError"
| "py_getitem JNull k = Inl TypeError"
| "py_getitem (JBool b) k = Inl TypeError"
| "py_getitem (JInt i) k = Inl TypeError"
| "py_getitem (JFloat f) k = Inl TypeError"

section \<open>class Feedback\<close>

record Feedback =
  log10_config :: Log10Config
  http_headers :: "(string \<times> string) list"

definition feedback_create_url :: string where
  "feedback_create_url = ''/api/v1/feedback''"

text \<open>\<open>Feedback.__init__\<close> (lines 23 to 30).\<close>

definition init :: "env \<Rightarrow> Log10Config option \<Rightarrow> Feedback" where
  "init E c =
     (let cfg = (case c of None \<Rightarrow> default_config E | Some c' \<Rightarrow> c')
      in \<lparr>log10_config = cfg,
          http_headers =
            headers_update (client_default_headers E)
              [(''x-log10-token'', token cfg),
               (''x-log10-organization-id'', org_id cfg),
               (''Content-Type'', ''application/json'')]\<rparr>)"

text \<open>\<open>hasattr(e, "response")\<close>: of the exceptions above only \<open>HTTPStatusError\<close> has one.\<close>

fun exn_response :: "exn \<Rightarrow> response option" where
  "exn_response (HTTPStatusError r) = Some r"
| "exn_response e = None"

text \<open>
  The \<open>except Exception as e\<close> block of \<open>_post_request\<close> (lines 38 to 42) and, with the
  same text, of \<open>list\<close> (lines 70 to 74).  The result is the exception that leaves the
  block: \<open>e\<close> itself when the bare \<open>raise\<close> is reached, another one when evaluating the
  condition or the second \<open>logger.error\<close> raises first.
\<close>

definition on_request_error :: "exn \<Rightarrow> world \<Rightarrow> exn \<times> world" where
  "on_request_error e w =
     (let w1 = logger_error (Log_exn e) w in
      case exn_response e of
        None \<Rightarrow> (e, w1)
      | Some r \<Rightarrow>
          (case response_json r of
             Inl e' \<Rightarrow> (e', w1)
           | Inr j \<Rightarrow>
               (case py_contains ''error'' j of
                  Inl e' \<Rightarrow> (e', w1)
                | Inr False \<Rightarrow> (e, w1)
                | Inr True \<Rightarrow>
                    (case py_getitem j ''error'' of
                       Inl e' \<Rightarrow> (e', w1)
                     | Inr v \<Rightarrow> (e, logger_error (Log_value v) w1)))))"

text \<open>
  The source evaluates \<open>e.response.json()\<close> once in the condition and once more in the
  second \<open>logger.error\<close>; decoding the same body gives the same value, so the model
  decodes once.

  The \<open>try\<close> body shared by both request paths is \<open>request_checked\<close>: send, then
  \<open>raise_for_status\<close>.  The \<open>try\<close> statement as a whole is \<open>guarded\<close>: the response is
  returned, or the handler above decides which exception leaves.  No branch assigns to
  \<open>self\<close>, so the instance comes back as it went in.
\<close>

definition request_checked :: "env \<Rightarrow> request \<Rightarrow> world \<Rightarrow> (exn + response) \<times> world" where
  "request_checked E rq w =
     (case http_send E rq w of
        (Inl e, w1) \<Rightarrow> (Inl e, w1)
      | (Inr res, w1) \<Rightarrow> (raise_for_status res, w1))"

definition guarded :: "env \<Rightarrow> Feedback \<Rightarrow> request \<Rightarrow> world \<Rightarrow> (exn + response) \<times> Feedback \<times> world" where
  "guarded E self rq w =
     (case request_checked E rq w of
        (Inr res, w1) \<Rightarrow> (Inr res, self, w1)
      | (Inl e, w1) \<Rightarrow> (case on_request_error e w1 of (e', w2) \<Rightarrow> (Inl e', self, w2)))"

text \<open>\<open>Feedback._post_request\<close> (lines 32 to 42).\<close>

definition build_request ::
  "env \<Rightarrow> Feedback \<Rightarrow> http_method \<Rightarrow> string \<Rightarrow> json option \<Rightarrow> request" where
  "build_request E self m u b =
     \<lparr>verb = m, target = u,
      req_headers = request_headers E (http_headers self) m u b,
      json_body = b\<rparr>"

definition post_request_of ::
  "env \<Rightarrow> Feedback \<Rightarrow> string \<Rightarrow> (string \<times> json) list \<Rightarrow> request" where
  "post_request_of E self path json_payload =
     build_request E self POST (url (log10_config self) @ path)
       (Some (JObj (AList.update ''organization_id'' (JStr (org_id (log10_config self)))
                      json_payload)))"

definition post_request ::
  "env \<Rightarrow> Feedback \<Rightarrow> string \<Rightarrow> (string \<times> json) list \<Rightarrow> world
     \<Rightarrow> (exn + response) \<times> Feedback \<times> world" where
  "post_request E self path json_payload w =
     guarded E self (post_request_of E self path json_payload) w"

text \<open>\<open>Feedback.create\<close> (lines 44 to 58).\<close>

definition create_payload ::
  "string \<Rightarrow> json \<Rightarrow> string list \<Rightarrow> string option \<Rightarrow> (string \<times> json) list" where
  "create_payload task_id vals completion_tags_selector comment =
     [(''task_id'', JStr task_id),
      (''json_values'', vals),
      (''completion_tags_selector'', JArr (map JStr completion_tags_selector)),
      (''comment'', (case comment of None \<Rightarrow> JNull | Some c \<Rightarrow> JStr c))]"

definition create ::
  "env \<Rightarrow> Feedback \<Rightarrow> string \<Rightarrow> json \<Rightarrow> string list \<Rightarrow> string option \<Rightarrow> world
     \<Rightarrow> (exn + response) \<times> Feedback \<times> world" where
  "create E self task_id vals completion_tags_selector comment w =
     post_request E self feedback_create_url
       (create_payload task_id vals completion_tags_selector comment) w"

text \<open>\<open>Feedback.list\<close> (lines 60 to 74); \<open>task_id\<close> is accepted and never read.\<close>

definition list_url :: "Feedback \<Rightarrow> int \<Rightarrow> int \<Rightarrow> string" where
  "list_url self offset limit =
     url (log10_config self) @ ''/api/v1/feedback'' @ ''?organization_id=''
       @ org_id (log10_config self) @ ''&offset='' @ str_int offset
       @ ''&limit='' @ str_int limit"

definition list_request_of :: "env \<Rightarrow> Feedback \<Rightarrow> int \<Rightarrow> int \<Rightarrow> request" where
  "list_request_of E self offset limit =
     build_request E self GET (list_url self offset limit) None"

definition list ::
  "env \<Rightarrow> Feedback \<Rightarrow> int \<Rightarrow> int \<Rightarrow> string option \<Rightarrow> world
     \<Rightarrow> (exn + response) \<times> Feedback \<times> world" where
  "list E self offset limit task_id w = guarded E self (list_request_of E self offset limit) w"

section \<open>Helpers for the command-line functions\<close>

text \<open>\<open>s.split(",")\<close>: an empty string gives one empty field.\<close>

fun split_on :: "char \<Rightarrow> string \<Rightarrow> string list" where
  "split_on c [] = [[]]"
| "split_on c (x # xs) =
     (if x = c then [] # split_on c xs
      else (case split_on c xs of [] \<Rightarrow> [[x]] | y # ys \<Rightarrow> (x # y) # ys))"

text \<open>\<open>sep.join(xs)\<close> on strings.\<close>

fun join :: "string \<Rightarrow> string list \<Rightarrow> string" where
  "join sep [] = []"
| "join sep [x] = x"
| "join sep (x # y # ys) = x @ sep @ join sep (y # ys)"

text \<open>
  Iterating a decoded JSON value: the elements of a list, the keys of a dict, the
  characters of a string; \<open>TypeError\<close> on everything else.
\<close>

fun py_iter :: "json \<Rightarrow> exn + json list" where
  "py_iter (JArr xs) = Inr xs"
| "py_iter (JObj kvs) = Inr (map (\<lambda>kv. JStr (fst kv)) kvs)"
| "py_iter (JStr s) = Inr (map (\<lambda>c. JStr [c]) s)"
| "py_iter JNull = Inl TypeError"
| "py_iter (JBool b) = Inl TypeError"
| "py_iter (JInt i) = Inl TypeError"
| "py_iter (JFloat f) = Inl TypeError"

text \<open>A loop whose body may raise: the first exception ends it.\<close>

fun map_exn :: "('a \<Rightarrow> exn + 'b) \<Rightarrow> 'a list \<Rightarrow> exn + 'b list" where
  "map_exn f [] = Inr []"
| "map_exn f (x # xs) =
     (case f x of
        Inl e \<Rightarrow> Inl e
      | Inr y \<Rightarrow> (case map_exn f xs of Inl e \<Rightarrow> Inl e | Inr ys \<Rightarrow> Inr (y # ys)))"

text \<open>\<open>",".join(v)\<close>: every element has to be a string.\<close>

fun as_str :: "json \<Rightarrow> exn + string" where
  "as_str (JStr s) = Inr s"
| "as_str v = Inl TypeError"

definition comma_join :: "json \<Rightarrow> exn + string" where
  "comma_join v =
     (case py_iter v of
        Inl e \<Rightarrow> Inl e
      | Inr xs \<Rightarrow> (case map_exn as_str xs of Inl e \<Rightarrow> Inl e | Inr ss \<Rightarrow> Inr (join '','' ss)))"

text \<open>
  \<open>[feedback for feedback in feedback_data if feedback["task_id"] == task_id]\<close>
  (line 114): a record without the key raises; a value that is not that string is
  dropped.
\<close>

fun filter_task :: "string \<Rightarrow> json list \<Rightarrow> exn + json list" where
  "filter_task t [] = Inr []"
| "filter_task t (f # fs) =
     (case py_getitem f ''task_id'' of
        Inl e \<Rightarrow> Inl e
      | Inr v \<Rightarrow>
          (case filter_task t fs of
             Inl e \<Rightarrow> Inl e
           | Inr r \<Rightarrow> Inr (if v = JStr t then f # r else r)))"

text \<open>
  Lines 113 and 114, with the iteration of line 116: \<open>if task_id:\<close> is false for
  \<open>None\<close> and for the empty string.
\<close>

definition select_feedback :: "string option \<Rightarrow> json \<Rightarrow> exn + json list" where
  "select_feedback task_id feedback_data =
     (case py_iter feedback_data of
        Inl e \<Rightarrow> Inl e
      | Inr fs \<Rightarrow>
          (case task_id of
             None \<Rightarrow> Inr fs
           | Some t \<Rightarrow> (if t = [] then Inr fs else filter_task t fs)))"

text \<open>The dict appended to \<open>data_for_table\<close> (lines 117 to 124).\<close>

definition table_item :: "env \<Rightarrow> json \<Rightarrow> exn + (json \<times> json \<times> string \<times> string)" where
  "table_item E feedback =
     (case py_getitem feedback ''id'' of
        Inl e \<Rightarrow> Inl e
      | Inr i \<Rightarrow>
     (case py_getitem feedback ''task_name'' of
        Inl e \<Rightarrow> Inl e
      | Inr n \<Rightarrow>
     (case py_getitem feedback ''json_values'' of
        Inl e \<Rightarrow> Inl e
      | Inr v \<Rightarrow>
     (case py_getitem feedback ''matched_completion_ids'' of
        Inl e \<Rightarrow> Inl e
      | Inr m \<Rightarrow>
     (case comma_join m of
        Inl e \<Rightarrow> Inl e
      | Inr s \<Rightarrow> Inr (i, n, json_dumps E v, s))))))"

text \<open>
  \<open>Table.add_row\<close> of the rich library: a cell is a string, \<open>None\<close> (an empty cell),
  or not renderable.
\<close>

fun cell :: "json \<Rightarrow> exn + string" where
  "cell (JStr s) = Inr s"
| "cell JNull = Inr []"
| "cell v = Inl NotRenderableError"

definition add_row :: "(json \<times> json \<times> string \<times> string) \<Rightarrow> exn + string list" where
  "add_row item =
     (case item of (i, n, f, m) \<Rightarrow>
        (case cell i of
           Inl e \<Rightarrow> Inl e
         | Inr ci \<Rightarrow> (case cell n of Inl e \<Rightarrow> Inl e | Inr cn \<Rightarrow> Inr [ci, cn, f, m])))"

definition feedback_table :: "string list list \<Rightarrow> table" where
  "feedback_table rs =
     \<lparr>title = ''Feedback'',
      columns = [''ID'', ''Task Name'', ''Feedback'', ''Completion ID''],
      rows = rs\<rparr>"

text \<open>
  \<open>console.print\<close> of the rich library: every string handed to it (title, column
  headers, cells, a plain line) is read as console markup and turned into the text
  to show before anything is written; one string with malformed markup makes the call
  raise \<open>MarkupError\<close> with nothing written.  An empty string is shown as it is.
\<close>

definition console_text :: "env \<Rightarrow> string \<Rightarrow> string option" where
  "console_text E s = (if s = [] then Some [] else render_str E s)"

definition render_table :: "env \<Rightarrow> table \<Rightarrow> table option" where
  "render_table E tb =
     (case console_text E (title tb) of
        None \<Rightarrow> None
      | Some t \<Rightarrow>
     (case those (map (console_text E) (columns tb)) of
        None \<Rightarrow> None
      | Some cs \<Rightarrow>
     (case those (map (\<lambda>r. those (map (console_text E) r)) (rows tb)) of
        None \<Rightarrow> None
      | Some rs \<Rightarrow> Some \<lparr>title = t, columns = cs, rows = rs\<rparr>)))"

definition console_print_table :: "env \<Rightarrow> table \<Rightarrow> world \<Rightarrow> (exn + unit) \<times> world" where
  "console_print_table E tb w =
     (case render_table E tb of
        None \<Rightarrow> (Inl MarkupError, w)
      | Some shown \<Rightarrow> (Inr (), echo (Console_table shown) w))"

definition console_print_str :: "env \<Rightarrow> string \<Rightarrow> world \<Rightarrow> (exn + unit) \<times> world" where
  "console_print_str E s w =
     (case console_text E s of
        None \<Rightarrow> (Inl MarkupError, w)
      | Some shown \<Rightarrow> (Inr (), echo (Console_text shown) w))"

section \<open>The command-line functions\<close>

text \<open>\<open>create_feedback\<close> (lines 86 to 94); it has no handler.\<close>

definition create_feedback ::
  "env \<Rightarrow> string \<Rightarrow> string \<Rightarrow> string \<Rightarrow> string \<Rightarrow> world \<Rightarrow> (exn + unit) \<times> world" where
  "create_feedback E task_id vals completion_tags_selector comment w =
     (let w1 = echo (Echo ''Creating feedback'') w;
          tags = split_on CHR '','' completion_tags_selector
      in case json_loads E vals of
           None \<Rightarrow> (Inl JSONDecodeError, w1)
         | Some v \<Rightarrow>
             (case create E (init E None) task_id v tags (Some comment) w1 of
                (Inl e, _, w2) \<Rightarrow> (Inl e, w2)
              | (Inr feedback, _, w2) \<Rightarrow>
                  (case response_json feedback of
                     Inl e \<Rightarrow> (Inl e, w2)
                   | Inr j \<Rightarrow> (Inr (), echo (Echo_value j) w2))))"

text \<open>The click options of lines 78 to 85: \<open>--comment\<close> has \<open>default=""\<close>.\<close>

definition create_feedback_command ::
  "env \<Rightarrow> string \<Rightarrow> string \<Rightarrow> string \<Rightarrow> string option \<Rightarrow> world \<Rightarrow> (exn + unit) \<times> world" where
  "create_feedback_command E task_id vals completion_tags_selector comment_opt w =
     create_feedback E task_id vals completion_tags_selector
       (case comment_opt of None \<Rightarrow> [] | Some c \<Rightarrow> c) w"

text \<open>The handler of \<open>list_feedback\<close> (lines 107 to 111).\<close>

definition on_fetch_error :: "exn \<Rightarrow> world \<Rightarrow> (exn + unit) \<times> world" where
  "on_fetch_error e w =
     (let w1 = echo (Echo_error_fetching e) w in
      case exn_response e of
        None \<Rightarrow> (Inr (), w1)
      | Some r \<Rightarrow>
          (case response_json r of
             Inl e' \<Rightarrow> (Inl e', w1)
           | Inr j \<Rightarrow>
               (case py_contains ''error'' j of
                  Inl e' \<Rightarrow> (Inl e', w1)
                | Inr False \<Rightarrow> (Inr (), w1)
                | Inr True \<Rightarrow>
                    (case py_getitem j ''error'' of
                       Inl e' \<Rightarrow> (Inl e', w1)
                     | Inr v \<Rightarrow> (Inr (), echo (Echo_value v) w1)))))"

text \<open>Lines 112 to 135: what follows a fetch that returned.\<close>

definition render_feedback :: "env \<Rightarrow> string option \<Rightarrow> response \<Rightarrow> world \<Rightarrow> (exn + unit) \<times> world" where
  "render_feedback E task_id res w =
     (case response_json res of
        Inl e \<Rightarrow> (Inl e, w)
      | Inr j \<Rightarrow>
     (case py_getitem j ''data'' of
        Inl e \<Rightarrow> (Inl e, w)
      | Inr d \<Rightarrow>
     (case select_feedback task_id d of
        Inl e \<Rightarrow> (Inl e, w)
      | Inr feedback_data \<Rightarrow>
     (case map_exn (table_item E) feedback_data of
        Inl e \<Rightarrow> (Inl e, w)
      | Inr data_for_table \<Rightarrow>
     (case map_exn add_row data_for_table of
        Inl e \<Rightarrow> (Inl e, w)
      | Inr rs \<Rightarrow>
          (case console_print_table E (feedback_table rs) w of
             (Inl e, w1) \<Rightarrow> (Inl e, w1)
           | (Inr u, w1) \<Rightarrow>
               console_print_str E
                 (''Total feedback: '' @ str_int (int (length feedback_data))) w1))))))"

text \<open>\<open>list_feedback\<close> (lines 101 to 135); the fetch is made without \<open>task_id\<close>.\<close>

definition list_feedback ::
  "env \<Rightarrow> int \<Rightarrow> int \<Rightarrow> string option \<Rightarrow> world \<Rightarrow> (exn + unit) \<times> world" where
  "list_feedback E offset limit task_id w =
     (case list E (init E None) offset limit None w of
        (Inl e, _, w1) \<Rightarrow> on_fetch_error e w1
      | (Inr res, _, w1) \<Rightarrow> render_feedback E task_id res w1)"

text \<open>The click options of lines 98 to 100: defaults 0, 25 and \<open>None\<close>.\<close>

definition list_feedback_command ::
  "env \<Rightarrow> int option \<Rightarrow> int option \<Rightarrow> string option \<Rightarrow> world \<Rightarrow> (exn + unit) \<times> world" where
  "list_feedback_command E offset_opt limit_opt task_id_opt w =
     list_feedback E
       (case offset_opt of None \<Rightarrow> 0 | Some n \<Rightarrow> n)
       (case limit_opt of None \<Rightarrow> 25 | Some n \<Rightarrow> n)
       task_id_opt w"

section \<open>Reading a query parameter back\<close>

text \<open>
  The integer a receiver reads from decimal text with an optional minus sign, as the
  service does with \<open>offset\<close> and \<open>limit\<close>.
\<close>

definition digit_value :: "char \<Rightarrow> nat" where
  "digit_value c = of_char c - 48"

definition digits_value :: "string \<Rightarrow> nat" where
  "digits_value s = foldl (\<lambda>a c. 10 * a + digit_value c) 0 s"

definition int_value :: "string \<Rightarrow> int" where
  "int_value s =
     (case s of
        [] \<Rightarrow> 0
      | c # cs \<Rightarrow> (if c = CHR ''-'' then - int (digits_value cs) else int (digits_value s)))"

section \<open>Feedback records and table rows as the service describes them\<close>

text \<open>
  A feedback record of the list response: \<open>id\<close>, \<open>task_id\<close> and \<open>task_name\<close> are strings,
  \<open>json_values\<close> is any value and \<open>matched_completion_ids\<close> is a list of strings.
\<close>

definition str_field :: "json \<Rightarrow> string \<Rightarrow> string option" where
  "str_field f k = (case py_getitem f k of Inr (JStr s) \<Rightarrow> Some s | _ \<Rightarrow> None)"

definition strs_field :: "json \<Rightarrow> string \<Rightarrow> string list option" where
  "strs_field f k =
     (case py_getitem f k of
        Inr (JArr xs) \<Rightarrow> (case map_exn as_str xs of Inr ss \<Rightarrow> Some ss | Inl e \<Rightarrow> None)
      | _ \<Rightarrow> None)"

definition any_field :: "json \<Rightarrow> string \<Rightarrow> json option" where
  "any_field f k = (case py_getitem f k of Inr v \<Rightarrow> Some v | Inl e \<Rightarrow> None)"

definition wf_record :: "json \<Rightarrow> bool" where
  "wf_record f =
     (str_field f ''id'' \<noteq> None \<and> str_field f ''task_id'' \<noteq> None
      \<and> str_field f ''task_name'' \<noteq> None \<and> any_field f ''json_values'' \<noteq> None
      \<and> strs_field f ''matched_completion_ids'' \<noteq> None)"

definition has_task :: "string \<Rightarrow> json \<Rightarrow> bool" where
  "has_task t f = (str_field f ''task_id'' = Some t)"

text \<open>
  The table row of a record: ID, Task Name, the JSON text of \<open>json_values\<close>, the
  comma-joined \<open>matched_completion_ids\<close>.  A missing field shows as an empty cell
  here; a well-formed record has none missing.
\<close>

definition spec_row :: "env \<Rightarrow> json \<Rightarrow> string list" where
  "spec_row E f =
     [case str_field f ''id'' of Some s \<Rightarrow> s | None \<Rightarrow> [],
      case str_field f ''task_name'' of Some s \<Rightarrow> s | None \<Rightarrow> [],
      case any_field f ''json_values'' of Some v \<Rightarrow> json_dumps E v | None \<Rightarrow> [],
      case strs_field f ''matched_completion_ids'' of Some ss \<Rightarrow> join '','' ss | None \<Rightarrow> []]"

section \<open>Sequences of client operations\<close>

datatype call =
    Create string json "string list" "string option"
  | List int int "string option"

text \<open>
  One operation on an instance, its result dropped (an exception it raises is the
  caller's to handle), and a sequence of them on the same instance.
\<close>

fun perform :: "env \<Rightarrow> call \<Rightarrow> Feedback \<times> world \<Rightarrow> Feedback \<times> world" where
  "perform E (Create task_id vals tags comment) (self, w) =
     snd (create E self task_id vals tags comment w)"
| "perform E (List offset limit task_id) (self, w) =
     snd (list E self offset limit task_id w)"

definition run :: "env \<Rightarrow> call list \<Rightarrow> Feedback \<times> world \<Rightarrow> Feedback \<times> world" where
  "run E cs s = foldl (\<lambda>s c. perform E c s) s cs"

section \<open>Sample collaborators\<close>

text \<open>
  A serialiser that agrees with \<open>json.dumps\<close> wherever no string needs escaping, and a
  parser that knows two documents; they stand in for the standard library in the
  concrete runs below.
\<close>

fun sample_dumps :: "json \<Rightarrow> string" where
  "sample_dumps JNull = ''null''"
| "sample_dumps (JBool b) = (if b then ''true'' else ''false'')"
| "sample_dumps (JInt i) = str_int i"
| "sample_dumps (JFloat f) = f"
| "sample_dumps (JStr s) = CHR 0x22 # s @ [CHR 0x22]"
| "sample_dumps (JArr xs) = ''['' @ join '', '' (map sample_dumps xs) @ '']''"
| "sample_dumps (JObj kvs) =
     ''{'' @ join '', ''
        (map (\<lambda>(k, v). CHR 0x22 # k @ [CHR 0x22] @ '': '' @ sample_dumps v) kvs) @ ''}''"

declare sample_dumps.simps [simp del]

text \<open>
  The headers of a new httpx client, the headers httpx computes for a request to the
  sample host (the length of a body is left at that of its \<open>sample_dumps\<close> text), and a
  console that shows text free of \<open>[\<close> as it is and refuses the rest, which is stricter
  than rich.
\<close>

definition sample_client_headers :: "(string \<times> string) list" where
  "sample_client_headers =
     [(''accept'', ''*/*''), (''accept-encoding'', ''gzip, deflate''),
      (''connection'', ''keep-alive''), (''user-agent'', ''python-httpx'')]"

definition sample_auto_headers ::
  "http_method \<Rightarrow> string \<Rightarrow> json option \<Rightarrow> (string \<times> string) list" where
  "sample_auto_headers m u b =
     (''Host'', ''log10.io'') #
     (case b of
        None \<Rightarrow> []
      | Some j \<Rightarrow>
          [(''Content-Length'', str_int (int (length (sample_dumps j)))),
           (''Content-Type'', ''application/json'')])"

definition sample_render_str :: "string \<Rightarrow> string option" where
  "sample_render_str s = (if List.member s CHR ''['' then None else Some s)"

definition sample_loads :: "string \<Rightarrow> json option" where
  "sample_loads s =
     (if s = ''5'' then Some (JInt 5) else if s = ''{}'' then Some (JObj []) else None)"

definition sample_config :: Log10Config where
  "sample_config = \<lparr>url = ''https://log10.io'', token = ''secret'', org_id = ''acme''\<rparr>"

definition sample_env :: "(request \<Rightarrow> outcome) \<Rightarrow> env" where
  "sample_env srv =
     \<lparr>server = srv, default_config = sample_config,
      json_loads = sample_loads, json_dumps = sample_dumps,
      client_default_headers = sample_client_headers,
      auto_headers = sample_auto_headers,
      render_str = sample_render_str\<rparr>"

text \<open>A service that answers one kind of request and cannot be reached by the other.\<close>

definition answers_only :: "http_method \<Rightarrow> nat \<Rightarrow> body \<Rightarrow> request \<Rightarrow> outcome" where
  "answers_only m st b rq =
     (if verb rq = m then Responds \<lparr>status_code = st, content = b\<rparr>
      else Transport_fails ''connection refused'')"

text \<open>A service that answers every request alike, and one that cannot be reached.\<close>

definition always :: "nat \<Rightarrow> body \<Rightarrow> request \<Rightarrow> outcome" where
  "always st b rq = Responds \<lparr>status_code = st, content = b\<rparr>"

definition unreachable :: "request \<Rightarrow> outcome" where
  "unreachable rq = Transport_fails ''connection refused''"

definition w0 :: world where
  "w0 = \<lparr>sent = [], logged = [], stdout = []\<rparr>"

definition rec_a :: json where
  "rec_a =
     JObj [(''id'', JStr ''f1''), (''task_id'', JStr ''a''), (''task_name'', JStr ''Task A''),
           (''json_values'', JObj [(''score'', JInt 5)]),
           (''matched_completion_ids'', JArr [JStr ''c1'', JStr ''c2''])]"

definition rec_b :: json where
  "rec_b =
     JObj [(''id'', JStr ''f2''), (''task_id'', JStr ''b''), (''task_name'', JStr ''Task B''),
           (''json_values'', JObj []),
           (''matched_completion_ids'', JArr [])]"

definition page_ab :: body where
  "page_ab = Json (JObj [(''data'', JArr [rec_a, rec_b])])"

section \<open>How a request path frames the world\<close>

lemma on_request_error_frame:
  "\<exists>e' ls. \<forall>w. on_request_error e w = (e', w\<lparr>logged := logged w @ ls\<rparr>)"
proof -
  have "\<forall>w. on_request_error e w =
     (fst (on_request_error e w0), w\<lparr>logged := logged w @ logged (snd (on_request_error e w0))\<rparr>)"
    by (auto simp: on_request_error_def logger_error_def w0_def Let_def
        split: option.splits sum.splits bool.splits)
  then show ?thesis by blast
qed

lemma request_checked_frame:
  "\<exists>r. \<forall>w. request_checked E rq w = (r, w\<lparr>sent := sent w @ [rq]\<rparr>)"
  by (cases "server E rq") (auto simp: request_checked_def http_send_def)

lemma guarded_frame:
  "\<exists>r ls. \<forall>w. guarded E self rq w =
     (r, self, w\<lparr>sent := sent w @ [rq], logged := logged w @ ls\<rparr>)"
proof -
  obtain r where r: "\<And>w. request_checked E rq w = (r, w\<lparr>sent := sent w @ [rq]\<rparr>)"
    using request_checked_frame by blast
  show ?thesis
  proof (cases r)
    case (Inl e)
    obtain e' ls where h: "\<And>w. on_request_error e w = (e', w\<lparr>logged := logged w @ ls\<rparr>)"
      using on_request_error_frame by blast
    have "\<forall>w. guarded E self rq w =
       (Inl e', self, w\<lparr>sent := sent w @ [rq], logged := logged w @ ls\<rparr>)"
      by (simp add: guarded_def r Inl h)
    then show ?thesis by blast
  next
    case (Inr res)
    have "\<forall>w. guarded E self rq w =
       (Inr res, self, w\<lparr>sent := sent w @ [rq], logged := logged w @ []\<rparr>)"
      by (simp add: guarded_def r Inr)
    then show ?thesis by blast
  qed
qed

lemma guarded_success:
  "server E rq = Responds r \<Longrightarrow> is_success r \<Longrightarrow>
     guarded E self rq w = (Inr r, self, w\<lparr>sent := sent w @ [rq]\<rparr>)"
  by (simp add: guarded_def request_checked_def http_send_def raise_for_status_def)

lemma guarded_self: "fst (snd (guarded E self rq w)) = self"
  using guarded_frame [of E self rq] by auto

lemma guarded_sent: "sent (snd (snd (guarded E self rq w))) = sent w @ [rq]"
  using guarded_frame [of E self rq] by auto

lemma guarded_stdout: "stdout (snd (snd (guarded E self rq w))) = stdout w"
  using guarded_frame [of E self rq] by auto

text \<open>The decimal text of an integer reads back as that integer.\<close>

lemma digit_value_digit_char: "d < 10 \<Longrightarrow> digit_value (digit_char d) = d"
  by (simp add: digit_value_def digit_char_def)

lemma digits_value_snoc: "digits_value (s @ [c]) = 10 * digits_value s + digit_value c"
  by (simp add: digits_value_def)

lemma digits_value_str_nat: "digits_value (str_nat n) = n"
proof (induction n rule: str_nat.induct)
  case (1 n)
  show ?case
  proof (cases "n < 10")
    case True
    then show ?thesis
      by (subst str_nat.simps) (simp add: digits_value_def digit_value_digit_char)
  next
    case False
    then have "digits_value (str_nat (n div 10)) = n div 10"
      using "1.IH" by simp
    with False show ?thesis
      by (subst str_nat.simps) (simp add: digits_value_snoc digit_value_digit_char)
  qed
qed

lemma str_nat_not_empty: "str_nat n \<noteq> []"
  by (subst str_nat.simps) simp

lemma hd_str_nat_not_minus: "hd (str_nat n) \<noteq> CHR ''-''"
proof (induction n rule: str_nat.induct)
  case (1 n)
  show ?case
  proof (cases "n < 10")
    case True
    have "digit_char n \<noteq> CHR ''-''"
    proof
      assume "digit_char n = CHR ''-''"
      then have "(of_char (digit_char n) :: nat) = of_char CHR ''-''" by simp
      then show False
        using True by (simp add: digit_char_def)
    qed
    with True show ?thesis
      by (subst str_nat.simps) simp
  next
    case False
    with "1.IH" show ?thesis
      by (subst str_nat.simps) (simp add: str_nat_not_empty)
  qed
qed

lemma int_value_str_int: "int_value (str_int i) = i"
proof (cases "i < 0")
  case True
  then show ?thesis
    by (simp add: int_value_def str_int_def digits_value_str_nat)
next
  case False
  obtain c cs where s: "str_nat (nat i) = c # cs"
    using str_nat_not_empty [of "nat i"] by (cases "str_nat (nat i)") auto
  then have "c \<noteq> CHR ''-''"
    using hd_str_nat_not_minus [of "nat i"] by simp
  moreover have "digits_value (c # cs) = nat i"
    using digits_value_str_nat [of "nat i"] s by simp
  ultimately show ?thesis
    using False s by (simp add: int_value_def str_int_def)
qed

lemma str_int_0: "str_int 0 = ''0''"
  by code_simp

lemma str_int_10: "str_int 10 = ''10''"
  by code_simp

lemma str_int_25: "str_int 25 = ''25''"
  by code_simp

lemma str_int_100: "str_int 100 = ''100''"
  by code_simp

text \<open>
  C2: whatever \<open>offset\<close>, \<open>limit\<close> and \<open>task_id\<close> are, \<open>list\<close> hands exactly one request to
  the transport, a GET whose query string is \<open>organization_id\<close>, \<open>offset\<close> and \<open>limit\<close>
  and nothing else; the whole call (result, instance, requests, log) is the same as
  with \<open>task_id = None\<close>, so \<open>task_id\<close> has no part in the request.  The texts of
  \<open>offset\<close> and \<open>limit\<close> in the query read back as the two integers, and are \<open>0\<close> and
  \<open>25\<close> for the defaults, \<open>10\<close> and \<open>100\<close> for a later page of a hundred.
\<close>

theorem list_request_ignores_task_id:
  "list E self offset limit task_id w = list E self offset limit None w
   \<and> sent (snd (snd (list E self offset limit task_id w))) =
       sent w @
       [\<lparr>verb = GET,
         target = url (log10_config self) @ ''/api/v1/feedback?organization_id=''
                    @ org_id (log10_config self) @ ''&offset='' @ str_int offset
                    @ ''&limit='' @ str_int limit,
         req_headers =
           request_headers E (http_headers self) GET
             (url (log10_config self) @ ''/api/v1/feedback?organization_id=''
                @ org_id (log10_config self) @ ''&offset='' @ str_int offset
                @ ''&limit='' @ str_int limit) None,
         json_body = None\<rparr>]
   \<and> int_value (str_int offset) = offset
   \<and> int_value (str_int limit) = limit
   \<and> map target (sent (snd (snd (list E (init E (Some sample_config)) 0 25 task_id w0)))) =
       [''https://log10.io/api/v1/feedback?organization_id=acme&offset=0&limit=25'']
   \<and> map target (sent (snd (snd (list E (init E (Some sample_config)) 10 100 task_id w0)))) =
       [''https://log10.io/api/v1/feedback?organization_id=acme&offset=10&limit=100'']"
  by (simp add: list_def guarded_sent list_request_of_def build_request_def list_url_def
      int_value_str_int init_def sample_config_def w0_def
      str_int_0 str_int_10 str_int_25 str_int_100)

text \<open>
  C4: \<open>create\<close> hands exactly one request to the transport, a POST to
  \<open><base_url>/api/v1/feedback\<close> whose JSON body has the keys \<open>task_id\<close>, \<open>json_values\<close>,
  \<open>completion_tags_selector\<close>, \<open>comment\<close> and \<open>organization_id\<close> (from the held
  configuration) and no other; \<open>comment\<close> is there, as \<open>null\<close>, when none was supplied.
\<close>

theorem create_sends_one_post:
  "sent (snd (snd (create E self task_id vals tags comment w))) =
     sent w @
     [\<lparr>verb = POST,
       target = url (log10_config self) @ ''/api/v1/feedback'',
       req_headers =
         request_headers E (http_headers self) POST
           (url (log10_config self) @ ''/api/v1/feedback'')
           (Some (JObj
             [(''task_id'', JStr task_id),
              (''json_values'', vals),
              (''completion_tags_selector'', JArr (map JStr tags)),
              (''comment'', (case comment of None \<Rightarrow> JNull | Some c \<Rightarrow> JStr c)),
              (''organization_id'', JStr (org_id (log10_config self)))])),
       json_body = Some (JObj
         [(''task_id'', JStr task_id),
          (''json_values'', vals),
          (''completion_tags_selector'', JArr (map JStr tags)),
          (''comment'', (case comment of None \<Rightarrow> JNull | Some c \<Rightarrow> JStr c)),
          (''organization_id'', JStr (org_id (log10_config self)))])\<rparr>]"
  by (simp add: create_def post_request_def guarded_sent post_request_of_def
      build_request_def create_payload_def feedback_create_url_def)

text \<open>
  C8: two \<open>list\<close> calls in a row with the same arguments against the same service give
  the same result, leave the instance as it was, send the same request twice and log
  the same lines twice.
\<close>

theorem list_twice_same:
  "(case list E self offset limit task_id w of
      (r1, self1, w1) \<Rightarrow>
        (case list E self1 offset limit task_id w1 of
           (r2, self2, w2) \<Rightarrow>
             r2 = r1 \<and> self1 = self \<and> self2 = self
             \<and> sent w2 = sent w @ [list_request_of E self offset limit, list_request_of E self offset limit]
             \<and> drop (length (logged w1)) (logged w2) = drop (length (logged w)) (logged w1)
             \<and> stdout w2 = stdout w))"
proof -
  obtain r ls where h: "\<And>w. guarded E self (list_request_of E self offset limit) w =
     (r, self, w\<lparr>sent := sent w @ [list_request_of E self offset limit], logged := logged w @ ls\<rparr>)"
    using guarded_frame by blast
  show ?thesis
    by (simp add: list_def h)
qed


text \<open>
  C1 at a failing input: the service answers 500 with a body that is not JSON.  The
  \<open>HTTPStatusError\<close> is logged, but the handler's own \<open>e.response.json()\<close> raises, so what
  reaches the caller of \<open>list\<close> and of \<open>create\<close> is a \<open>JSONDecodeError\<close>, not the exception
  that was caught.
\<close>

theorem non_json_error_body_replaces_exception:
  "fst (list (sample_env (always 500 (Not_json ''Internal Server Error'')))
         (init (sample_env (always 500 (Not_json ''Internal Server Error''))) None)
         0 25 None w0) = Inl JSONDecodeError
   \<and> logged (snd (snd (list (sample_env (always 500 (Not_json ''Internal Server Error'')))
         (init (sample_env (always 500 (Not_json ''Internal Server Error''))) None)
         0 25 None w0))) =
       [Log_exn (HTTPStatusError \<lparr>status_code = 500, content = Not_json ''Internal Server Error''\<rparr>)]
   \<and> fst (create (sample_env (always 500 (Not_json ''Internal Server Error'')))
         (init (sample_env (always 500 (Not_json ''Internal Server Error''))) None)
         ''T1'' (JInt 5) [''tagA''] None w0) = Inl JSONDecodeError"
  by (simp add: list_def create_def post_request_def guarded_def request_checked_def
      http_send_def sample_env_def always_def raise_for_status_def is_success_def
      on_request_error_def logger_error_def response_json_def w0_def)

text \<open>
  C3 as stated fails: on status 200 with a body that is not JSON, \<open>create\<close> returns
  normally, and what it returns is the response object, which has no decoded JSON
  body at all.
\<close>

theorem create_returns_undecoded_response:
  "fst (create (sample_env (always 200 (Not_json ''OK'')))
         (init (sample_env (always 200 (Not_json ''OK''))) None)
         ''T1'' (JInt 5) [''tagA''] None w0)
     = Inr \<lparr>status_code = 200, content = Not_json ''OK''\<rparr>
   \<and> response_json \<lparr>status_code = 200, content = Not_json ''OK''\<rparr> = Inl JSONDecodeError"
  by (simp add: create_def post_request_def guarded_def request_checked_def
      http_send_def sample_env_def always_def raise_for_status_def is_success_def
      response_json_def)

text \<open>
  C3, amended: when the service answers the request of \<open>create\<close> with a 2xx status,
  \<open>create\<close> returns that response object itself, undecoded, having sent the one
  request and logged nothing; and so does \<open>list\<close> with the answer to its own request.
  Decoding is left to the caller.
\<close>

theorem success_returns_response:
  "(server E (post_request_of E self feedback_create_url
                (create_payload task_id vals tags comment)) = Responds r
      \<and> is_success r \<longrightarrow>
    create E self task_id vals tags comment w =
      (Inr r, self,
       w\<lparr>sent := sent w @ [post_request_of E self feedback_create_url
                              (create_payload task_id vals tags comment)]\<rparr>))
   \<and> (server E (list_request_of E self offset limit) = Responds r' \<and> is_success r' \<longrightarrow>
    list E self offset limit tid w =
      (Inr r', self, w\<lparr>sent := sent w @ [list_request_of E self offset limit]\<rparr>))"
  by (simp add: create_def post_request_def list_def guarded_success)

text \<open>
  C3, amended, on two runs: \<open>create\<close> against a service that answers only POST, and
  \<open>list\<close> against a service that answers only GET, each with status 200.
\<close>

theorem success_returns_response_witness:
  "fst (create (sample_env (answers_only POST 200 (Json (JObj [(''id'', JStr ''f1'')]))))
          (init (sample_env (answers_only POST 200 (Json (JObj [(''id'', JStr ''f1'')])))) None)
          ''T1'' (JInt 5) [''tagA''] None w0)
     = Inr \<lparr>status_code = 200, content = Json (JObj [(''id'', JStr ''f1'')])\<rparr>
   \<and> fst (list (sample_env (answers_only GET 200 page_ab))
          (init (sample_env (answers_only GET 200 page_ab)) None) 0 25 None w0)
     = Inr \<lparr>status_code = 200, content = page_ab\<rparr>"
proof -
  let ?P = "sample_env (answers_only POST 200 (Json (JObj [(''id'', JStr ''f1'')])))"
  let ?G = "sample_env (answers_only GET 200 page_ab)"
  let ?rp = "\<lparr>status_code = 200, content = Json (JObj [(''id'', JStr ''f1'')])\<rparr>"
  let ?rg = "\<lparr>status_code = 200, content = page_ab\<rparr>"
  have p: "server ?P (post_request_of ?P (init ?P None) feedback_create_url
                        (create_payload ''T1'' (JInt 5) [''tagA''] None)) = Responds ?rp
           \<and> is_success ?rp"
    by (simp add: sample_env_def answers_only_def post_request_of_def build_request_def
        is_success_def)
  have g: "server ?G (list_request_of ?G (init ?G None) 0 25) = Responds ?rg \<and> is_success ?rg"
    by (simp add: sample_env_def answers_only_def list_request_of_def build_request_def
        is_success_def)
  show ?thesis
    using p g
      success_returns_response [where E = ?P and self = "init ?P None" and task_id = "''T1''"
        and vals = "JInt 5" and tags = "[''tagA'']" and comment = None and r = ?rp and w = w0]
      success_returns_response [where E = ?G and self = "init ?G None" and offset = 0
        and limit = 25 and r' = ?rg and tid = None and w = w0]
    by simp
qed

section \<open>The instance and its headers over a sequence of operations\<close>

lemma lower_token: "lower ''x-log10-token'' = ''x-log10-token''"
  by code_simp

lemma lower_organization: "lower ''x-log10-organization-id'' = ''x-log10-organization-id''"
  by code_simp

lemma lower_content_type: "lower ''Content-Type'' = ''content-type''"
  by code_simp

lemma lower_host: "lower ''Host'' = ''host''"
  by code_simp

lemma init_headers:
  "map_of (http_headers (init E c)) ''x-log10-token'' = Some (token (log10_config (init E c)))"
  "map_of (http_headers (init E c)) ''x-log10-organization-id'' =
     Some (org_id (log10_config (init E c)))"
  "map_of (http_headers (init E c)) ''content-type'' = Some ''application/json''"
  by (simp_all add: init_def Let_def headers_update_def update_conv'
      lower_token lower_organization lower_content_type)

text \<open>A header the client has keeps its value on every request built from the client.\<close>

lemma setdefault_keeps:
  "map_of hs k = Some v \<Longrightarrow> map_of (headers_setdefault hs extra) k = Some v"
  unfolding headers_setdefault_def
proof (induction extra arbitrary: hs)
  case Nil
  then show ?case by simp
next
  case (Cons kv extra)
  have "map_of (if List.member (map fst hs) (lower (fst kv)) then hs
                else hs @ [(lower (fst kv), snd kv)]) k = Some v"
    using Cons.prems by (simp add: map_add_def)
  then show ?case
    using Cons.IH by simp
qed

text \<open>Every operation leaves the instance alone and sends one request built from it.\<close>

lemma perform_frame:
  "\<exists>rq. fst (perform E c (self, w)) = self
        \<and> sent (snd (perform E c (self, w))) = sent w @ [rq]
        \<and> req_headers rq =
            request_headers E (http_headers self) (verb rq) (target rq) (json_body rq)"
proof (cases c)
  case (Create t v tags cm)
  then show ?thesis
    by (simp add: create_def post_request_def guarded_self guarded_sent post_request_of_def
        build_request_def)
next
  case (List x y z)
  then show ?thesis
    by (simp add: list_def guarded_self guarded_sent list_request_of_def build_request_def)
qed

lemma run_frame:
  "\<exists>new. fst (run E cs (self, w)) = self
         \<and> sent (snd (run E cs (self, w))) = sent w @ new
         \<and> length new = length cs
         \<and> list_all (\<lambda>rq. req_headers rq =
              request_headers E (http_headers self) (verb rq) (target rq) (json_body rq)) new"
proof (induction cs arbitrary: w)
  case Nil
  then show ?case by (simp add: run_def)
next
  case (Cons c cs)
  obtain rq where p: "fst (perform E c (self, w)) = self"
      "sent (snd (perform E c (self, w))) = sent w @ [rq]"
      "req_headers rq =
         request_headers E (http_headers self) (verb rq) (target rq) (json_body rq)"
    using perform_frame by blast
  define w1 where "w1 = snd (perform E c (self, w))"
  have pf: "perform E c (self, w) = (self, w1)"
    using p(1) by (simp add: w1_def prod_eq_iff)
  obtain new where n: "fst (run E cs (self, w1)) = self"
      "sent (snd (run E cs (self, w1))) = sent w1 @ new"
      "length new = length cs"
      "list_all (\<lambda>rq. req_headers rq =
          request_headers E (http_headers self) (verb rq) (target rq) (json_body rq)) new"
    using Cons.IH by blast
  have "run E (c # cs) (self, w) = run E cs (self, w1)"
    by (simp add: run_def pf)
  moreover have "sent w1 @ new = sent w @ (rq # new)"
    using p(2) by (simp add: w1_def)
  ultimately show ?case
    using n p(3) by (intro exI [of _ "rq # new"]) simp
qed

lemma list_all_weaken:
  "list_all P xs \<Longrightarrow> (\<And>x. P x \<Longrightarrow> Q x) \<Longrightarrow> list_all Q xs"
  by (induction xs) auto

text \<open>
  C9 as stated fails: the client that \<open>__init__\<close> sets up holds seven headers, its four
  defaults and the three assigned, and the request of \<open>list\<close> carries eight, with the
  \<open>Host\<close> that httpx computes.  The headers of the request are given as a set, their
  order being left open.
\<close>

theorem request_carries_more_than_three_headers:
  "http_headers (init (sample_env unreachable) None) =
     [(''accept'', ''*/*''), (''accept-encoding'', ''gzip, deflate''),
      (''connection'', ''keep-alive''), (''user-agent'', ''python-httpx''),
      (''x-log10-token'', ''secret''), (''x-log10-organization-id'', ''acme''),
      (''content-type'', ''application/json'')]
   \<and> map (\<lambda>rq. set (req_headers rq))
        (sent (snd (snd (list (sample_env unreachable) (init (sample_env unreachable) None)
                           0 25 None w0)))) =
     [{(''accept'', ''*/*''), (''accept-encoding'', ''gzip, deflate''),
       (''connection'', ''keep-alive''), (''user-agent'', ''python-httpx''),
       (''x-log10-token'', ''secret''), (''x-log10-organization-id'', ''acme''),
       (''content-type'', ''application/json''), (''host'', ''log10.io'')}]
   \<and> map (\<lambda>rq. length (req_headers rq))
        (sent (snd (snd (list (sample_env unreachable) (init (sample_env unreachable) None)
                           0 25 None w0)))) = [8]"
  by (simp add: list_def guarded_sent list_request_of_def build_request_def
      request_headers_def headers_setdefault_def headers_update_def init_def
      sample_env_def sample_config_def sample_client_headers_def sample_auto_headers_def
      lower_token lower_organization lower_content_type lower_host w0_def)

text \<open>
  C9, amended: construction fixes the configuration and the client's headers, which
  are the defaults of httpx updated with \<open>x-log10-token\<close>, \<open>x-log10-organization-id\<close> and
  \<open>Content-Type: application/json\<close>; after any sequence of \<open>create\<close> and \<open>list\<close>
  operations the instance is the one that was constructed, one request went out per
  operation, and each request carries those three headers with those values, among
  the other headers of the client and of httpx.
\<close>

theorem configuration_and_headers_fixed:
  "log10_config (init E c) = (case c of None \<Rightarrow> default_config E | Some k \<Rightarrow> k)
   \<and> http_headers (init E c) =
       headers_update (client_default_headers E)
         [(''x-log10-token'', token (log10_config (init E c))),
          (''x-log10-organization-id'', org_id (log10_config (init E c))),
          (''Content-Type'', ''application/json'')]
   \<and> fst (run E cs (init E c, w)) = init E c
   \<and> take (length (sent w)) (sent (snd (run E cs (init E c, w)))) = sent w
   \<and> length (sent (snd (run E cs (init E c, w)))) = length (sent w) + length cs
   \<and> list_all
        (\<lambda>rq. map_of (req_headers rq) ''x-log10-token''
                 = Some (token (log10_config (init E c)))
             \<and> map_of (req_headers rq) ''x-log10-organization-id''
                 = Some (org_id (log10_config (init E c)))
             \<and> map_of (req_headers rq) ''content-type'' = Some ''application/json'')
        (drop (length (sent w)) (sent (snd (run E cs (init E c, w)))))"
proof -
  obtain new where n: "fst (run E cs (init E c, w)) = init E c"
      "sent (snd (run E cs (init E c, w))) = sent w @ new"
      "length new = length cs"
      "list_all (\<lambda>rq. req_headers rq =
          request_headers E (http_headers (init E c)) (verb rq) (target rq) (json_body rq)) new"
    using run_frame by blast
  have "log10_config (init E c) = (case c of None \<Rightarrow> default_config E | Some k \<Rightarrow> k)"
    by (simp add: init_def Let_def)
  moreover have "http_headers (init E c) =
       headers_update (client_default_headers E)
         [(''x-log10-token'', token (log10_config (init E c))),
          (''x-log10-organization-id'', org_id (log10_config (init E c))),
          (''Content-Type'', ''application/json'')]"
    by (simp add: init_def Let_def)
  moreover have "list_all
        (\<lambda>rq. map_of (req_headers rq) ''x-log10-token''
                 = Some (token (log10_config (init E c)))
             \<and> map_of (req_headers rq) ''x-log10-organization-id''
                 = Some (org_id (log10_config (init E c)))
             \<and> map_of (req_headers rq) ''content-type'' = Some ''application/json'') new"
    using n(4)
    by (rule list_all_weaken) (simp add: request_headers_def setdefault_keeps init_headers)
  ultimately show ?thesis using n(1-3) by simp
qed

section \<open>The command-line functions: errors while fetching\<close>

text \<open>
  An exception raised by the handler's own probing has no \<open>response\<close> attribute, so an
  exception that leaves a request path never makes the handler of \<open>list_feedback\<close>
  raise in turn.
\<close>

lemma py_contains_raises: "py_contains k j = Inl x \<Longrightarrow> exn_response x = None"
  by (cases j) auto

lemma py_getitem_raises: "py_getitem j k = Inl x \<Longrightarrow> exn_response x = None"
  by (cases j) (auto split: option.splits)

lemma response_json_raises: "response_json r = Inl x \<Longrightarrow> exn_response x = None"
  by (auto simp: response_json_def split: body.splits)

lemma raised_is_reportable:
  assumes "on_request_error e w = (e', w')"
  shows "fst (on_fetch_error e' v) = Inr ()
         \<and> sent (snd (on_fetch_error e' v)) = sent v
         \<and> logged (snd (on_fetch_error e' v)) = logged v
         \<and> (stdout (snd (on_fetch_error e' v)) = stdout v @ [Echo_error_fetching e']
            \<or> (\<exists>x. stdout (snd (on_fetch_error e' v)) =
                     stdout v @ [Echo_error_fetching e', Echo_value x]))"
proof (cases "exn_response e'")
  case None
  then show ?thesis by (simp add: on_fetch_error_def echo_def)
next
  case (Some r)
  have same: "e' = e"
    using assms Some
    by (auto simp: on_request_error_def Let_def
        split: option.splits sum.splits bool.splits
        dest: py_contains_raises py_getitem_raises response_json_raises)
  obtain j b where j: "response_json r = Inr j" "py_contains ''error'' j = Inr b"
      "b \<Longrightarrow> \<exists>x. py_getitem j ''error'' = Inr x"
    using assms Some same
    by (auto simp: on_request_error_def Let_def
        split: option.splits sum.splits bool.splits
        dest: py_contains_raises py_getitem_raises response_json_raises)
  show ?thesis
  proof (cases b)
    case True
    then obtain x where "py_getitem j ''error'' = Inr x" using j(3) by blast
    then show ?thesis using Some j True by (simp add: on_fetch_error_def echo_def)
  next
    case False
    then show ?thesis using Some j by (simp add: on_fetch_error_def echo_def)
  qed
qed

lemma guarded_raised:
  assumes "guarded E self rq w = (Inl e', s, w')"
  shows "\<exists>e u. on_request_error e u = (e', w')"
  using assms
  by (auto simp: guarded_def split: prod.splits sum.splits)

text \<open>
  C7: whenever the fetch of \<open>list_feedback\<close> raises, the command returns normally; one
  request went out; standard output gained the line \<open>Error fetching feedback ...\<close>,
  followed at most by the service's \<open>error\<close> value, and neither a table nor a total
  line.  What \<open>logger.error\<close> wrote went to the log, not to standard output.
\<close>

theorem list_feedback_catches:
  assumes "fst (list E (init E None) offset limit None w) = Inl e"
  shows "fst (list_feedback E offset limit task_id w) = Inr ()
         \<and> sent (snd (list_feedback E offset limit task_id w)) =
             sent w @ [list_request_of E (init E None) offset limit]
         \<and> (stdout (snd (list_feedback E offset limit task_id w)) =
              stdout w @ [Echo_error_fetching e]
            \<or> (\<exists>x. stdout (snd (list_feedback E offset limit task_id w)) =
                     stdout w @ [Echo_error_fetching e, Echo_value x]))"
proof -
  obtain s w1 where l: "list E (init E None) offset limit None w = (Inl e, s, w1)"
    using assms by (cases "list E (init E None) offset limit None w") auto
  then have g: "guarded E (init E None) (list_request_of E (init E None) offset limit) w = (Inl e, s, w1)"
    by (simp add: list_def)
  obtain e0 u where h: "on_request_error e0 u = (e, w1)"
    using guarded_raised [OF g] by blast
  have w1s: "sent w1 = sent w @ [list_request_of E (init E None) offset limit]"
    using guarded_sent [of E "init E None" "list_request_of E (init E None) offset limit" w] g by simp
  have w1o: "stdout w1 = stdout w"
    using guarded_stdout [of E "init E None" "list_request_of E (init E None) offset limit" w] g by simp
  have lf: "list_feedback E offset limit task_id w = on_fetch_error e w1"
    by (simp add: list_feedback_def l)
  show ?thesis
    using raised_is_reportable [OF h, of w1] w1s w1o by (simp add: lf)
qed


text \<open>
  C7 on a run: the service answers 500 with \<open>{"error": "quota exceeded"}\<close>.
\<close>

theorem list_feedback_catches_witness:
  "fst (list_feedback (sample_env (always 500 (Json (JObj [(''error'', JStr ''quota exceeded'')]))))
          0 25 (Some ''a'') w0) = Inr ()
   \<and> stdout (snd (list_feedback
          (sample_env (always 500 (Json (JObj [(''error'', JStr ''quota exceeded'')]))))
          0 25 (Some ''a'') w0)) =
       [Echo_error_fetching (HTTPStatusError
          \<lparr>status_code = 500, content = Json (JObj [(''error'', JStr ''quota exceeded'')])\<rparr>),
        Echo_value (JStr ''quota exceeded'')]"
proof -
  let ?E = "sample_env (always 500 (Json (JObj [(''error'', JStr ''quota exceeded'')])))"
  let ?e = "HTTPStatusError
          \<lparr>status_code = 500, content = Json (JObj [(''error'', JStr ''quota exceeded'')])\<rparr>"
  have h: "fst (list ?E (init ?E None) 0 25 None w0) = Inl ?e"
    by (simp add: list_def guarded_def request_checked_def
      http_send_def sample_env_def always_def raise_for_status_def is_success_def
      on_request_error_def logger_error_def response_json_def w0_def)
  have "stdout (snd (list_feedback ?E 0 25 (Some ''a'') w0)) \<noteq> [Echo_error_fetching ?e]"
    by (simp add: list_feedback_def list_def guarded_def request_checked_def
      http_send_def sample_env_def always_def raise_for_status_def is_success_def
      on_request_error_def on_fetch_error_def echo_def logger_error_def response_json_def w0_def)
  moreover have "\<And>x. stdout (snd (list_feedback ?E 0 25 (Some ''a'') w0)) =
       [Echo_error_fetching ?e, Echo_value x] \<Longrightarrow> x = JStr ''quota exceeded''"
    by (simp add: list_feedback_def list_def guarded_def request_checked_def
      http_send_def sample_env_def always_def raise_for_status_def is_success_def
      on_request_error_def on_fetch_error_def echo_def logger_error_def response_json_def w0_def)
  ultimately show ?thesis
    using list_feedback_catches [OF h, of "Some ''a''"] by (auto simp: w0_def)
qed

section \<open>The command-line functions: the table\<close>

lemma wf_filter_task:
  "list_all wf_record fs \<Longrightarrow> filter_task t fs = Inr (filter (has_task t) fs)"
proof (induction fs)
  case Nil
  then show ?case by simp
next
  case (Cons f fs)
  then obtain s where "py_getitem f ''task_id'' = Inr (JStr s)"
    by (auto simp: wf_record_def str_field_def split: sum.splits json.splits)
  then show ?case
    using Cons by (auto simp: has_task_def str_field_def)
qed

lemma wf_row:
  assumes "wf_record f"
  shows "\<exists>item. table_item E f = Inr item \<and> add_row item = Inr (spec_row E f)"
proof -
  obtain i n v xs ss where f: "py_getitem f ''id'' = Inr (JStr i)"
      "py_getitem f ''task_name'' = Inr (JStr n)"
      "py_getitem f ''json_values'' = Inr v"
      "py_getitem f ''matched_completion_ids'' = Inr (JArr xs)"
      "map_exn as_str xs = Inr ss"
    using assms
    by (auto simp: wf_record_def str_field_def any_field_def strs_field_def
        split: sum.splits json.splits)
  then show ?thesis
    by (simp add: table_item_def comma_join_def add_row_def spec_row_def
        str_field_def any_field_def strs_field_def)
qed

lemma wf_rows:
  "list_all wf_record fs \<Longrightarrow>
     \<exists>items. map_exn (table_item E) fs = Inr items
            \<and> map_exn add_row items = Inr (map (spec_row E) fs)"
proof (induction fs)
  case Nil
  then show ?case by simp
next
  case (Cons f fs)
  then obtain items where "map_exn (table_item E) fs = Inr items"
      "map_exn add_row items = Inr (map (spec_row E) fs)"
    by auto
  moreover have "wf_record f"
    using Cons.prems by simp
  then obtain item where "table_item E f = Inr item" "add_row item = Inr (spec_row E f)"
    using wf_row [of f E] by blast
  ultimately show ?case by simp
qed

lemma list_all_filter: "list_all P xs \<Longrightarrow> list_all P (filter Q xs)"
  by (induction xs) auto

lemma those_length: "those xs = Some ys \<Longrightarrow> length ys = length xs"
proof (induction xs arbitrary: ys)
  case Nil
  then show ?case by simp
next
  case (Cons x xs)
  then show ?case by (auto split: option.splits)
qed

lemma render_table_rows:
  assumes "render_table E (feedback_table rs) = Some shown"
  shows "those (map (\<lambda>r. those (map (console_text E) r)) rs) = Some (rows shown)"
    and "length (rows shown) = length rs"
proof -
  show a: "those (map (\<lambda>r. those (map (console_text E) r)) rs) = Some (rows shown)"
    using assms by (auto simp: render_table_def feedback_table_def split: option.splits)
  show "length (rows shown) = length rs"
    using those_length [OF a] by simp
qed

lemma render_wf:
  assumes "response_json res = Inr j"
    and "py_getitem j ''data'' = Inr (JArr fs)"
    and "list_all wf_record fs"
    and "t \<noteq> []"
    and "render_table E (feedback_table (map (spec_row E) (filter (has_task t) fs))) = Some shown"
    and "console_text E (''Total feedback: ''
           @ str_int (int (length (filter (has_task t) fs)))) = Some line"
  shows "render_feedback E (Some t) res w =
     (Inr (), w\<lparr>stdout := stdout w @ [Console_table shown, Console_text line]\<rparr>)"
proof -
  have sel: "select_feedback (Some t) (JArr fs) = Inr (filter (has_task t) fs)"
    using assms(3,4) by (simp add: select_feedback_def wf_filter_task)
  obtain items where "map_exn (table_item E) (filter (has_task t) fs) = Inr items"
      "map_exn add_row items = Inr (map (spec_row E) (filter (has_task t) fs))"
    using wf_rows [OF list_all_filter [OF assms(3)]] by blast
  then show ?thesis
    using assms(1,2,5,6) sel
    by (simp add: render_feedback_def console_print_table_def console_print_str_def echo_def)
qed

lemma select_empty_filter: "select_feedback (Some []) d = select_feedback None d"
  by (simp add: select_feedback_def split: sum.splits)

lemma render_empty_filter:
  "render_feedback E (Some []) res w = render_feedback E None res w"
  by (simp add: render_feedback_def select_empty_filter split: sum.splits)

lemma empty_filter_is_no_filter:
  "list_feedback E offset limit (Some []) w = list_feedback E offset limit None w"
  by (simp add: list_feedback_def render_empty_filter split: prod.splits sum.splits)

lemma dumps_score:
  "sample_dumps (JObj [(''score'', JInt 5)]) =
     CHR ''{'' # CHR 0x22 # ''score'' @ CHR 0x22 # '': 5}''"
  by code_simp

lemma dumps_empty: "sample_dumps (JObj []) = ''{}''"
  by code_simp

text \<open>
  A cell the console refuses: one record whose \<open>task_name\<close> is \<open>[/b]\<close>.  The fetch
  succeeds, \<open>console.print\<close> raises, and standard output stays empty.
\<close>

lemma refused_cell_prints_nothing:
  "fst (list_feedback
     (sample_env (always 200 (Json (JObj [(''data'', JArr
        [JObj [(''id'', JStr ''f1''), (''task_id'', JStr ''a''), (''task_name'', JStr ''[/b]''),
               (''json_values'', JObj []), (''matched_completion_ids'', JArr [])]])]))))
     0 25 (Some ''a'') w0) = Inl MarkupError
   \<and> stdout (snd (list_feedback
     (sample_env (always 200 (Json (JObj [(''data'', JArr
        [JObj [(''id'', JStr ''f1''), (''task_id'', JStr ''a''), (''task_name'', JStr ''[/b]''),
               (''json_values'', JObj []), (''matched_completion_ids'', JArr [])]])]))))
     0 25 (Some ''a'') w0)) = []"
  by (simp add: list_feedback_def list_def guarded_def request_checked_def http_send_def
      sample_env_def always_def raise_for_status_def is_success_def response_json_def
      render_feedback_def select_feedback_def table_item_def comma_join_def add_row_def
      console_print_table_def render_table_def console_text_def sample_render_str_def
      feedback_table_def dumps_empty w0_def)

text \<open>
  C5, amended: when the fetched page is a list of records, the \<open>task_id\<close> filter is a
  non-empty string and the console accepts the texts of the table and of the total
  line, the command returns normally, the table shown has exactly the rows of the
  records whose \<open>task_id\<close> is that string, in page order, and the total line counts the
  rows of the table.  With the empty string as filter the command does what it does
  with no filter.
\<close>

theorem list_feedback_filters_by_task_id:
  "(fst (list E (init E None) offset limit None w) = Inr res
      \<and> response_json res = Inr j
      \<and> py_getitem j ''data'' = Inr (JArr fs)
      \<and> list_all wf_record fs
      \<and> t \<noteq> []
      \<and> render_table E (feedback_table (map (spec_row E) (filter (has_task t) fs))) = Some shown
      \<and> console_text E (''Total feedback: ''
            @ str_int (int (length (filter (has_task t) fs)))) = Some line
    \<longrightarrow>
      fst (list_feedback E offset limit (Some t) w) = Inr ()
      \<and> stdout (snd (list_feedback E offset limit (Some t) w)) =
          stdout w @ [Console_table shown, Console_text line]
      \<and> those (map (\<lambda>r. those (map (console_text E) r))
                  (map (spec_row E) (filter (has_task t) fs))) = Some (rows shown)
      \<and> length (rows shown) = length (filter (has_task t) fs))
   \<and> list_feedback E offset limit (Some []) w = list_feedback E offset limit None w"
proof (intro conjI impI)
  assume a: "fst (list E (init E None) offset limit None w) = Inr res
      \<and> response_json res = Inr j
      \<and> py_getitem j ''data'' = Inr (JArr fs)
      \<and> list_all wf_record fs
      \<and> t \<noteq> []
      \<and> render_table E (feedback_table (map (spec_row E) (filter (has_task t) fs))) = Some shown
      \<and> console_text E (''Total feedback: ''
            @ str_int (int (length (filter (has_task t) fs)))) = Some line"
  obtain s w1 where l: "list E (init E None) offset limit None w = (Inr res, s, w1)"
    using a by (cases "list E (init E None) offset limit None w") auto
  have o: "stdout w1 = stdout w"
    using guarded_stdout [of E "init E None" "list_request_of E (init E None) offset limit" w] l
    by (simp add: list_def)
  have a1: "response_json res = Inr j"
    and a2: "py_getitem j ''data'' = Inr (JArr fs)"
    and a3: "list_all wf_record fs"
    and a4: "t \<noteq> []"
    and a5: "render_table E (feedback_table (map (spec_row E) (filter (has_task t) fs)))
               = Some shown"
    and a6: "console_text E (''Total feedback: ''
               @ str_int (int (length (filter (has_task t) fs)))) = Some line"
    using a by simp_all
  have r: "render_feedback E (Some t) res w1 =
     (Inr (), w1\<lparr>stdout := stdout w1 @ [Console_table shown, Console_text line]\<rparr>)"
    by (rule render_wf [OF a1 a2 a3 a4 a5 a6])
  show "fst (list_feedback E offset limit (Some t) w) = Inr ()"
    by (simp add: list_feedback_def l r)
  show "stdout (snd (list_feedback E offset limit (Some t) w)) =
          stdout w @ [Console_table shown, Console_text line]"
    by (simp add: list_feedback_def l r o)
  show "those (map (\<lambda>r. those (map (console_text E) r))
                  (map (spec_row E) (filter (has_task t) fs))) = Some (rows shown)"
    by (rule render_table_rows(1) [OF a5])
  show "length (rows shown) = length (filter (has_task t) fs)"
    using render_table_rows(2) [OF a5] by simp
next
  show "list_feedback E offset limit (Some []) w = list_feedback E offset limit None w"
    by (rule empty_filter_is_no_filter)
qed

text \<open>Unfolding a whole run of \<open>list_feedback\<close> on a concrete service.\<close>

lemmas run_defs =
  list_feedback_def list_def guarded_def request_checked_def http_send_def
  sample_env_def always_def raise_for_status_def is_success_def response_json_def
  render_feedback_def select_feedback_def table_item_def comma_join_def add_row_def
  console_print_table_def console_print_str_def render_table_def console_text_def
  sample_render_str_def echo_def feedback_table_def page_ab_def rec_a_def rec_b_def w0_def

lemma total_one: "str_int 1 = ''1''"
  by code_simp

lemma total_two: "str_int 2 = ''2''"
  by code_simp

text \<open>
  C5, amended, on a run: a page with one record of task \<open>a\<close> and one of task \<open>b\<close>,
  filtered by \<open>a\<close>, shows one row and \<open>Total feedback: 1\<close>.
\<close>

theorem list_feedback_filters_by_task_id_witness:
  "fst (list_feedback (sample_env (always 200 page_ab)) 0 25 (Some ''a'') w0) = Inr ()
   \<and> stdout (snd (list_feedback (sample_env (always 200 page_ab)) 0 25 (Some ''a'') w0)) =
       [Console_table (feedback_table
          [[''f1'', ''Task A'', sample_dumps (JObj [(''score'', JInt 5)]), ''c1,c2'']]),
        Console_text ''Total feedback: 1'']"
proof -
  let ?E = "sample_env (always 200 page_ab)"
  let ?row = "[''f1'', ''Task A'', sample_dumps (JObj [(''score'', JInt 5)]), ''c1,c2'']"
  have a: "fst (list ?E (init ?E None) 0 25 None w0) = Inr \<lparr>status_code = 200, content = page_ab\<rparr>"
    by (simp add: run_defs)
  have b: "response_json \<lparr>status_code = 200, content = page_ab\<rparr>
             = Inr (JObj [(''data'', JArr [rec_a, rec_b])])"
    by (simp add: response_json_def page_ab_def)
  have c: "py_getitem (JObj [(''data'', JArr [rec_a, rec_b])]) ''data'' = Inr (JArr [rec_a, rec_b])"
    by simp
  have d: "list_all wf_record [rec_a, rec_b]"
    by (simp add: wf_record_def str_field_def any_field_def strs_field_def rec_a_def rec_b_def)
  have e: "''a'' \<noteq> []"
    by simp
  have f: "filter (has_task ''a'') [rec_a, rec_b] = [rec_a]"
    by (simp add: has_task_def str_field_def rec_a_def rec_b_def)
  have g: "spec_row ?E rec_a = ?row"
    by (simp add: spec_row_def str_field_def any_field_def strs_field_def rec_a_def
        sample_env_def)
  have h: "render_table ?E (feedback_table (map (spec_row ?E) (filter (has_task ''a'') [rec_a, rec_b])))
             = Some (feedback_table [?row])"
    apply (simp only: f g list.map)
    apply (simp add: dumps_score render_table_def console_text_def feedback_table_def
        sample_env_def sample_render_str_def)
    done
  have i: "console_text ?E (''Total feedback: ''
             @ str_int (int (length (filter (has_task ''a'') [rec_a, rec_b]))))
           = Some ''Total feedback: 1''"
    apply (simp only: f)
    apply (simp add: console_text_def sample_env_def sample_render_str_def total_one)
    done
  show ?thesis
    using a b c d e h i
      list_feedback_filters_by_task_id [where E = ?E and offset = 0 and limit = 25 and w = w0
        and res = "\<lparr>status_code = 200, content = page_ab\<rparr>"
        and j = "JObj [(''data'', JArr [rec_a, rec_b])]" and fs = "[rec_a, rec_b]"
        and t = "''a''" and shown = "feedback_table [?row]" and line = "''Total feedback: 1''"]
    by (simp add: w0_def dumps_score)
qed

text \<open>
  C5 as stated fails for the empty filter value: \<open>--task_id ""\<close> makes \<open>if task_id:\<close>
  false, so both records are shown and counted, although no record has the task id
  \<open>""\<close>.
\<close>

theorem empty_task_id_filter_shows_every_row:
  "stdout (snd (list_feedback (sample_env (always 200 page_ab)) 0 25 (Some []) w0)) =
     [Console_table (feedback_table
        [[''f1'', ''Task A'', sample_dumps (JObj [(''score'', JInt 5)]), ''c1,c2''],
         [''f2'', ''Task B'', sample_dumps (JObj []), []]]),
      Console_text ''Total feedback: 2'']
   \<and> filter (has_task []) [rec_a, rec_b] = []"
  by (simp add: run_defs has_task_def str_field_def total_two dumps_score dumps_empty)

section \<open>The command-line functions: creating feedback\<close>

lemma create_feedback_sent:
  assumes "json_loads E vals = Some v"
  shows "sent (snd (create_feedback E task_id vals sel comment w)) =
           sent w @ [post_request_of E (init E None) feedback_create_url
                       (create_payload task_id v (split_on CHR '','' sel) (Some comment))]"
proof -
  let ?w1 = "echo (Echo ''Creating feedback'') w"
  let ?rq = "post_request_of E (init E None) feedback_create_url
               (create_payload task_id v (split_on CHR '','' sel) (Some comment))"
  obtain r s w2 where c: "create E (init E None) task_id v (split_on CHR '','' sel) (Some comment) ?w1
      = (r, s, w2)"
    by (cases "create E (init E None) task_id v (split_on CHR '','' sel) (Some comment) ?w1") auto
  have "sent w2 = sent ?w1 @ [?rq]"
    using guarded_sent [of E "init E None" ?rq ?w1] c
    by (simp add: create_def post_request_def)
  then have "sent w2 = sent w @ [?rq]"
    by (simp add: echo_def)
  then show ?thesis
    using assms c
    by (auto simp: create_feedback_def Let_def echo_def split: sum.splits)
qed

text \<open>
  C6: when \<open>values\<close> is not valid JSON, \<open>create_feedback\<close> raises the parse error and no
  request has been sent; and an exception raised by \<open>Feedback.create\<close>, or by decoding
  its response, is the exception \<open>create_feedback\<close> raises.
\<close>

theorem create_feedback_parse_error_first:
  "(json_loads E vals = None \<longrightarrow>
      fst (create_feedback E task_id vals sel comment w) = Inl JSONDecodeError
      \<and> sent (snd (create_feedback E task_id vals sel comment w)) = sent w)
   \<and> (json_loads E vals = Some v
       \<and> fst (create E (init E None) task_id v (split_on CHR '','' sel) (Some comment)
                (echo (Echo ''Creating feedback'') w)) = Inl e \<longrightarrow>
      fst (create_feedback E task_id vals sel comment w) = Inl e)
   \<and> (json_loads E vals = Some v
       \<and> fst (create E (init E None) task_id v (split_on CHR '','' sel) (Some comment)
                (echo (Echo ''Creating feedback'') w)) = Inr res
       \<and> response_json res = Inl e' \<longrightarrow>
      fst (create_feedback E task_id vals sel comment w) = Inl e')"
  by (auto simp: create_feedback_def Let_def echo_def split: prod.splits sum.splits)


text \<open>Unfolding a whole run of \<open>create_feedback\<close> on a concrete service.\<close>

lemmas create_run_defs =
  create_feedback_def create_def post_request_def guarded_def request_checked_def
  http_send_def sample_env_def sample_loads_def always_def unreachable_def
  raise_for_status_def is_success_def response_json_def on_request_error_def
  logger_error_def echo_def w0_def

text \<open>
  C6 on three runs: malformed \<open>values\<close>; an unreachable service; a 200 response whose
  body is not JSON.
\<close>

theorem create_feedback_parse_error_first_witness:
  "fst (create_feedback (sample_env unreachable) ''T1'' ''{oops'' ''tagA,tagB'' [] w0)
     = Inl JSONDecodeError
   \<and> sent (snd (create_feedback (sample_env unreachable) ''T1'' ''{oops'' ''tagA,tagB'' [] w0)) = []
   \<and> fst (create_feedback (sample_env unreachable) ''T1'' ''5'' ''tagA,tagB'' [] w0)
     = Inl (TransportError ''connection refused'')
   \<and> fst (create_feedback (sample_env (always 200 (Not_json ''OK''))) ''T1'' ''5'' ''tagA,tagB'' [] w0)
     = Inl JSONDecodeError"
proof -
  have a: "json_loads (sample_env unreachable) ''{oops'' = None"
    by (simp add: sample_env_def sample_loads_def)
  have b: "json_loads (sample_env unreachable) ''5'' = Some (JInt 5)
      \<and> fst (create (sample_env unreachable) (init (sample_env unreachable) None) ''T1'' (JInt 5)
               (split_on CHR '','' ''tagA,tagB'') (Some [])
               (echo (Echo ''Creating feedback'') w0)) = Inl (TransportError ''connection refused'')"
    by (simp add: create_run_defs Let_def)
  have c: "json_loads (sample_env (always 200 (Not_json ''OK''))) ''5'' = Some (JInt 5)
      \<and> fst (create (sample_env (always 200 (Not_json ''OK'')))
               (init (sample_env (always 200 (Not_json ''OK''))) None) ''T1'' (JInt 5)
               (split_on CHR '','' ''tagA,tagB'') (Some [])
               (echo (Echo ''Creating feedback'') w0)) = Inr \<lparr>status_code = 200, content = Not_json ''OK''\<rparr>
      \<and> response_json \<lparr>status_code = 200, content = Not_json ''OK''\<rparr> = Inl JSONDecodeError"
    by (simp add: create_run_defs Let_def)
  show ?thesis
    using a b c
      create_feedback_parse_error_first [of "sample_env unreachable" "''{oops''" "''T1''"
        "''tagA,tagB''" "[]" w0]
      create_feedback_parse_error_first [of "sample_env unreachable" "''5''" "''T1''"
        "''tagA,tagB''" "[]" w0 "JInt 5" "TransportError ''connection refused''"]
      create_feedback_parse_error_first [of "sample_env (always 200 (Not_json ''OK''))" "''5''"
        "''T1''" "''tagA,tagB''" "[]" w0 "JInt 5" _
        "\<lparr>status_code = 200, content = Not_json ''OK''\<rparr>" JSONDecodeError]
    by (simp add: w0_def)
qed

lemma create_sent_request:
  "sent (snd (snd (create E self task_id v tags comment w))) =
     sent w @ [post_request_of E self feedback_create_url (create_payload task_id v tags comment)]"
  by (simp add: create_def post_request_def guarded_sent)

text \<open>
  C10: without \<open>--comment\<close>, and with \<open>values\<close> that parse, the POST body of the command
  has \<open>comment\<close> equal to the empty string, where \<open>Feedback.create\<close> called without a
  comment sends \<open>null\<close>.
\<close>

theorem cli_comment_defaults_to_empty_string:
  assumes "json_loads E vals = Some v"
  shows "sent (snd (create_feedback_command E task_id vals sel None w)) =
           sent w @
           [\<lparr>verb = POST,
             target = url (default_config E) @ ''/api/v1/feedback'',
             req_headers =
               request_headers E (http_headers (init E None)) POST
                 (url (default_config E) @ ''/api/v1/feedback'')
                 (Some (JObj
                   [(''task_id'', JStr task_id),
                    (''json_values'', v),
                    (''completion_tags_selector'', JArr (map JStr (split_on CHR '','' sel))),
                    (''comment'', JStr []),
                    (''organization_id'', JStr (org_id (default_config E)))])),
             json_body = Some (JObj
               [(''task_id'', JStr task_id),
                (''json_values'', v),
                (''completion_tags_selector'', JArr (map JStr (split_on CHR '','' sel))),
                (''comment'', JStr []),
                (''organization_id'', JStr (org_id (default_config E)))])\<rparr>]
         \<and> sent (snd (snd (create E (init E None) task_id v (split_on CHR '','' sel) None w))) =
           sent w @
           [\<lparr>verb = POST,
             target = url (default_config E) @ ''/api/v1/feedback'',
             req_headers =
               request_headers E (http_headers (init E None)) POST
                 (url (default_config E) @ ''/api/v1/feedback'')
                 (Some (JObj
                   [(''task_id'', JStr task_id),
                    (''json_values'', v),
                    (''completion_tags_selector'', JArr (map JStr (split_on CHR '','' sel))),
                    (''comment'', JNull),
                    (''organization_id'', JStr (org_id (default_config E)))])),
             json_body = Some (JObj
               [(''task_id'', JStr task_id),
                (''json_values'', v),
                (''completion_tags_selector'', JArr (map JStr (split_on CHR '','' sel))),
                (''comment'', JNull),
                (''organization_id'', JStr (org_id (default_config E)))])\<rparr>]"
proof -
  have cfg: "log10_config (init E None) = default_config E"
    by (simp add: init_def Let_def)
  have "sent (snd (create_feedback_command E task_id vals sel None w)) =
          sent w @ [post_request_of E (init E None) feedback_create_url
                      (create_payload task_id v (split_on CHR '','' sel) (Some []))]"
    using create_feedback_sent [OF assms] by (simp add: create_feedback_command_def)
  moreover have "sent (snd (snd (create E (init E None) task_id v (split_on CHR '','' sel) None w))) =
          sent w @ [post_request_of E (init E None) feedback_create_url
                      (create_payload task_id v (split_on CHR '','' sel) None)]"
    by (rule create_sent_request)
  ultimately show ?thesis
    by (simp add: post_request_of_def build_request_def create_payload_def
        feedback_create_url_def cfg)
qed

text \<open>
  C10 on a run: \<open>create-feedback --task_id T1 --values 5 --completion_tags_selector tagA,tagB\<close>.
\<close>

theorem cli_comment_defaults_to_empty_string_witness:
  "map json_body
     (sent (snd (create_feedback_command
                   (sample_env (always 200 (Json (JObj [(''id'', JStr ''f1'')]))))
                   ''T1'' ''5'' ''tagA,tagB'' None w0))) =
     [Some (JObj
         [(''task_id'', JStr ''T1''),
          (''json_values'', JInt 5),
          (''completion_tags_selector'', JArr [JStr ''tagA'', JStr ''tagB'']),
          (''comment'', JStr []),
          (''organization_id'', JStr ''acme'')])]"
proof -
  let ?E = "sample_env (always 200 (Json (JObj [(''id'', JStr ''f1'')])))"
  have a: "json_loads ?E ''5'' = Some (JInt 5)"
    by (simp add: sample_env_def sample_loads_def)
  have b: "org_id (default_config ?E) = ''acme''"
    by (simp add: sample_env_def sample_config_def)
  show ?thesis
    using cli_comment_defaults_to_empty_string [OF a, of "''T1''" "''tagA,tagB''" w0] b
    by (simp add: w0_def)
qed


end
